theory Spec2Isabelle
  imports Complex_Main "HOL-Library.Signed_Division"
begin

unbundle bit_operations_syntax

section \<open>Narrow type emulation for memrefs (EmulateNarrowType.cpp)\<close>

text \<open>
  The file rewrites operations on buffers of sub-byte integers into operations on buffers
  of a wider, addressable integer type. The rewrite patterns are embedded as functions
  that build the replacement IR through an explicit rewriter state; the emitted IR is a
  tree of operations with an evaluator, so that what the emitted code computes can be
  stated and proved.
\<close>

subsection \<open>C++ integer arithmetic\<close>

text \<open>
  Where the C++ has no defined result the model returns an error value instead of a
  result: an assertion that fails, a division or remainder by zero, and an overflow of
  signed arithmetic, in the 32-bit \<open>int\<close> of the two mask constants
  \<open>(1 << srcBits) - 1\<close> and in the \<open>int64_t\<close> of element counts and offsets.
  C++ division and remainder truncate towards zero (\<open>sdiv\<close>, \<open>smod\<close>). Bit widths are
  what \<open>getIntOrFloatBitWidth\<close> and \<open>getWidth\<close> return, \<open>unsigned\<close> values that the
  source keeps in \<open>int\<close>, \<open>unsigned\<close> or \<open>int64_t\<close> variables; they are \<open>nat\<close> here.
  \<open>int64_t\<close> quantities (shapes, offsets, sizes) are values of \<open>int\<close>; a sum, a
  difference or a product of them that leaves the range of \<open>int64_t\<close> is an overflow.
  The divisors of the file are never negative, so no quotient overflows.
\<close>

datatype cxx_error = assertion_failure | division_by_zero | signed_overflow

definition andThen :: "cxx_error + 'a \<Rightarrow> ('a \<Rightarrow> cxx_error + 'b) \<Rightarrow> cxx_error + 'b" where
  \<comment> \<open>sequencing: the first error ends the computation\<close>
  "andThen r f = (case r of Inl e \<Rightarrow> Inl e | Inr x \<Rightarrow> f x)"

definition cxx_assert :: "bool \<Rightarrow> cxx_error + unit" where
  "cxx_assert c = (if c then Inr () else Inl assertion_failure)"

definition cxx_div :: "int \<Rightarrow> int \<Rightarrow> cxx_error + int" where
  "cxx_div a b = (if b = 0 then Inl division_by_zero else Inr (a sdiv b))"

definition cxx_mod :: "int \<Rightarrow> int \<Rightarrow> cxx_error + int" where
  "cxx_mod a b = (if b = 0 then Inl division_by_zero else Inr (a smod b))"

definition shl_int32 :: "int \<Rightarrow> int \<Rightarrow> cxx_error + int" where
  \<comment> \<open>\<open>a << n\<close> on \<open>int\<close>, for \<open>a \<ge> 0\<close>: defined when \<open>0 \<le> n < 32\<close> and the result fits
      the unsigned type, and then read back as an \<open>int\<close>\<close>
  "shl_int32 a n =
     (if 0 \<le> n \<and> n < 32 \<and> 0 \<le> a \<and> push_bit (nat n) a < 2 ^ 32
      then Inr (signed_take_bit 31 (push_bit (nat n) a))
      else Inl signed_overflow)"

definition sub_int32 :: "int \<Rightarrow> int \<Rightarrow> cxx_error + int" where
  "sub_int32 a b =
     (if - (2 ^ 31) \<le> a - b \<and> a - b < 2 ^ 31 then Inr (a - b) else Inl signed_overflow)"

definition int64 :: "int \<Rightarrow> cxx_error + int" where
  \<comment> \<open>the result of an \<open>int64_t\<close> operation whose mathematical value is \<open>x\<close>\<close>
  "int64 x = (if - (2 ^ 63) \<le> x \<and> x < 2 ^ 63 then Inr x else Inl signed_overflow)"

definition add_int64 :: "int \<Rightarrow> int \<Rightarrow> cxx_error + int" where
  "add_int64 a b = int64 (a + b)"

definition sub_int64 :: "int \<Rightarrow> int \<Rightarrow> cxx_error + int" where
  "sub_int64 a b = int64 (a - b)"

definition mul_int64 :: "int \<Rightarrow> int \<Rightarrow> cxx_error + int" where
  "mul_int64 a b = int64 (a * b)"

definition kDynamic :: int where
  \<comment> \<open>\<open>ShapedType::kDynamic\<close>, the smallest \<open>int64_t\<close>\<close>
  "kDynamic = - (2 ^ 63)"

subsection \<open>Types of the IR\<close>

datatype SignednessSemantics = Signless | Signed | Unsigned

text \<open>
  Element types that have a bit width. \<open>getIntOrFloatBitWidth\<close> asserts on every other
  type, so those are not part of the model.
\<close>

datatype mlirType = IntegerType nat SignednessSemantics | FloatType nat

fun getIntOrFloatBitWidth :: "mlirType \<Rightarrow> nat" where
  "getIntOrFloatBitWidth (IntegerType w sg) = w"
| "getIntOrFloatBitWidth (FloatType w) = w"

definition getIntegerType :: "nat \<Rightarrow> mlirType" where
  \<comment> \<open>\<open>builder.getIntegerType(width)\<close>: the signless integer type\<close>
  "getIntegerType w = IntegerType w Signless"

text \<open>
  Modelled from the spec: \<open>Builder::getIntegerAttr(type, int64_t)\<close> is one of the
  "basic arithmetic/bitwise instruction constructors" outside the file. The attribute
  holds the C++ integer as a value of the type: its two's complement in the width of the
  type, kept in the unsigned reading \<open>0 \<le> v < 2 ^ width\<close>.
\<close>

definition getIntegerAttr :: "mlirType \<Rightarrow> int \<Rightarrow> int" where
  "getIntegerAttr ty v = take_bit (getIntOrFloatBitWidth ty) v"

datatype layoutAttr =
    NoLayout                            \<comment> \<open>a null layout attribute: the identity layout\<close>
  | StridedLayoutAttr int "int list"    \<comment> \<open>offset, strides\<close>
  | AffineMapLayout nat                 \<comment> \<open>any other layout map, not in strided form\<close>

record memRefType =
  shape :: "int list"
  elementType :: mlirType
  layout :: layoutAttr
  memorySpace :: nat

definition getRank :: "memRefType \<Rightarrow> nat" where
  "getRank ty = length (shape ty)"

subsection \<open>Affine expressions in one symbol\<close>

datatype affineExpr =
    AffineSymbol0
  | AffineConstant int
  | AffineAdd affineExpr affineExpr
  | AffineMul affineExpr affineExpr
  | AffineMod affineExpr affineExpr
  | AffineFloorDiv affineExpr affineExpr

text \<open>
  Modelled from the spec: the affine expression library is outside the file. \<open>mod\<close> and
  \<open>floordiv\<close> are the mathematical ones and need a positive right operand; an expression
  that has none there has no value.
\<close>

fun evalAffine :: "affineExpr \<Rightarrow> int \<Rightarrow> int option" where
  "evalAffine AffineSymbol0 s = Some s"
| "evalAffine (AffineConstant c) s = Some c"
| "evalAffine (AffineAdd a b) s =
     (case (evalAffine a s, evalAffine b s) of (Some x, Some y) \<Rightarrow> Some (x + y) | _ \<Rightarrow> None)"
| "evalAffine (AffineMul a b) s =
     (case (evalAffine a s, evalAffine b s) of (Some x, Some y) \<Rightarrow> Some (x * y) | _ \<Rightarrow> None)"
| "evalAffine (AffineMod a b) s =
     (case (evalAffine a s, evalAffine b s) of
        (Some x, Some y) \<Rightarrow> if 0 < y then Some (x mod y) else None
      | _ \<Rightarrow> None)"
| "evalAffine (AffineFloorDiv a b) s =
     (case (evalAffine a s, evalAffine b s) of
        (Some x, Some y) \<Rightarrow> if 0 < y then Some (x div y) else None
      | _ \<Rightarrow> None)"

text \<open>The overloaded C++ operators that the file uses to build expressions.\<close>

definition affine_mod :: "affineExpr \<Rightarrow> int \<Rightarrow> affineExpr" where
  \<comment> \<open>\<open>expr % v\<close>\<close>
  "affine_mod e v = AffineMod e (AffineConstant v)"

definition affine_mul :: "affineExpr \<Rightarrow> int \<Rightarrow> affineExpr" where
  \<comment> \<open>\<open>expr * v\<close>\<close>
  "affine_mul e v = AffineMul e (AffineConstant v)"

definition affine_rsub :: "int \<Rightarrow> affineExpr \<Rightarrow> affineExpr" where
  \<comment> \<open>\<open>v - expr\<close>, which the library builds as \<open>expr * (-1) + v\<close>\<close>
  "affine_rsub v e = AffineAdd (AffineMul e (AffineConstant (- 1))) (AffineConstant v)"

definition affine_floorDiv :: "affineExpr \<Rightarrow> int \<Rightarrow> affineExpr" where
  \<comment> \<open>\<open>expr.floorDiv(v)\<close>\<close>
  "affine_floorDiv e v = AffineFloorDiv e (AffineConstant v)"

subsection \<open>Operations of the emitted IR\<close>

datatype AtomicRMWKind = andi | ori

text \<open>
  A value of the IR is the operation that defines it, with its operands, or an argument
  that is defined outside the rewritten operation (the operands that the adaptor hands to
  a pattern). Result types that the builders infer from the operands are not stored.
\<close>

datatype operation =
    BlockArgument nat
  | ConstantOp mlirType int                       \<comment> \<open>\<open>arith.constant\<close>: type, attribute value\<close>
  | ConstantIndexOp int                           \<comment> \<open>\<open>arith.constant ... : index\<close>\<close>
  | AffineApplyOp affineExpr operation            \<comment> \<open>\<open>affine.apply\<close> of an expression in \<open>s0\<close>\<close>
  | IndexCastOp mlirType operation
  | ExtUIOp mlirType operation
  | TruncIOp mlirType operation
  | ShLIOp operation operation
  | ShRSIOp operation operation
  | AndIOp operation operation
  | XOrIOp operation operation
  | LoadOp operation "operation list"             \<comment> \<open>\<open>memref.load\<close>: memref, indices\<close>
  | AtomicRMWOp AtomicRMWKind operation operation "operation list"
      \<comment> \<open>\<open>memref.atomic_rmw\<close>: kind, value, memref, indices\<close>
  | SubViewOp memRefType operation int int "int list"
      \<comment> \<open>\<open>memref.subview\<close>: result type, source, static offset, size, strides\<close>

datatype opFoldResult = Attribute int | Value operation

subsection \<open>The rewriter\<close>

datatype rootStatus = Unmodified | ReplacedWith operation | Erased

record rewriter =
  createdOps :: "operation list"   \<comment> \<open>the operations inserted so far, in order\<close>
  root :: rootStatus               \<comment> \<open>what has happened to the operation being rewritten\<close>

datatype LogicalResult = success | failure string

definition create :: "operation \<Rightarrow> rewriter \<Rightarrow> operation \<times> rewriter" where
  \<comment> \<open>\<open>rewriter.create<Op>(loc, ...)\<close>\<close>
  "create opn rw = (opn, rw\<lparr>createdOps := createdOps rw @ [opn]\<rparr>)"

definition replaceOp :: "operation \<Rightarrow> rewriter \<Rightarrow> rewriter" where
  "replaceOp v rw = rw\<lparr>root := ReplacedWith v\<rparr>"

definition replaceOpWithNewOp :: "operation \<Rightarrow> rewriter \<Rightarrow> rewriter" where
  "replaceOpWithNewOp opn rw = replaceOp opn (snd (create opn rw))"

definition eraseOp :: "rewriter \<Rightarrow> rewriter" where
  "eraseOp rw = rw\<lparr>root := Erased\<rparr>"

definition notifyMatchFailure :: "string \<Rightarrow> rewriter \<Rightarrow> LogicalResult \<times> rewriter" where
  \<comment> \<open>reports the diagnostic and returns failure; the IR is not touched\<close>
  "notifyMatchFailure msg rw = (failure msg, rw)"

text \<open>
  Modelled from the spec: \<open>affine::makeComposedFoldedAffineApply\<close> and
  \<open>getValueOrCreateConstantIndexOp\<close> are outside the file. "The result is produced as a
  compile-time-foldable expression when index is itself foldable, else as a
  runtime-computed value": a constant operand is folded into a constant, any other
  operand gets an \<open>affine.apply\<close>.
\<close>

definition makeComposedFoldedAffineApply ::
  "affineExpr \<Rightarrow> opFoldResult \<Rightarrow> rewriter \<Rightarrow> opFoldResult \<times> rewriter" where
  "makeComposedFoldedAffineApply expr operand b =
     (case operand of
        Attribute i \<Rightarrow>
          (case evalAffine expr i of
             Some v \<Rightarrow> (Attribute v, b)
           | None \<Rightarrow>
               (let (c, b1) = create (ConstantIndexOp i) b;
                    (a, b2) = create (AffineApplyOp expr c) b1
                in (Value a, b2)))
      | Value v \<Rightarrow> (let (a, b1) = create (AffineApplyOp expr v) b in (Value a, b1)))"

definition getValueOrCreateConstantIndexOp ::
  "opFoldResult \<Rightarrow> rewriter \<Rightarrow> operation \<times> rewriter" where
  "getValueOrCreateConstantIndexOp ofr b =
     (case ofr of Value v \<Rightarrow> (v, b) | Attribute i \<Rightarrow> create (ConstantIndexOp i) b)"

subsection \<open>Meaning of the emitted operations\<close>

text \<open>
  Modelled from the spec: the dialects' operations are outside the file. An integer value
  carries its width and its unsigned reading. A shift by the width or more is poison, a
  load or an atomic update out of the buffer's bounds is undefined, and an operation
  applied to operands of the wrong type does not verify: all three have no value here.
  \<open>arith.extui\<close> and \<open>arith.trunci\<close> need a strictly wider, respectively narrower, result
  type. The emulated buffer is the only buffer: its element width and its containers.
\<close>

datatype val = IntVal nat int | IndexVal int | MemRefVal

record buffer =
  elemWidth :: nat
  cells :: "int list"

definition loadCell :: "buffer \<Rightarrow> int list \<Rightarrow> int option" where
  "loadCell m idxs =
     (case idxs of
        [] \<Rightarrow> (if length (cells m) = 1 then Some (cells m ! 0) else None)
      | [i] \<Rightarrow> (if 0 \<le> i \<and> nat i < length (cells m) then Some (cells m ! nat i) else None)
      | _ \<Rightarrow> None)"

definition storeCell :: "buffer \<Rightarrow> int list \<Rightarrow> int \<Rightarrow> buffer option" where
  "storeCell m idxs v =
     (case idxs of
        [] \<Rightarrow> (if length (cells m) = 1 then Some (m\<lparr>cells := (cells m)[0 := v]\<rparr>) else None)
      | [i] \<Rightarrow> (if 0 \<le> i \<and> nat i < length (cells m)
                then Some (m\<lparr>cells := (cells m)[nat i := v]\<rparr>) else None)
      | _ \<Rightarrow> None)"

fun indexValues :: "val option list \<Rightarrow> int list option" where
  "indexValues [] = Some []"
| "indexValues (Some (IndexVal i) # vs) =
     (case indexValues vs of Some ixs \<Rightarrow> Some (i # ixs) | None \<Rightarrow> None)"
| "indexValues (v # vs) = None"

definition shli :: "val \<Rightarrow> val \<Rightarrow> val option" where
  "shli a b =
     (case (a, b) of
        (IntVal w x, IntVal w' y) \<Rightarrow>
          if w = w' \<and> y < int w then Some (IntVal w (take_bit w (push_bit (nat y) x))) else None
      | _ \<Rightarrow> None)"

definition shrsi :: "val \<Rightarrow> val \<Rightarrow> val option" where
  \<comment> \<open>arithmetic shift: the left operand is read as two's complement\<close>
  "shrsi a b =
     (case (a, b) of
        (IntVal w x, IntVal w' y) \<Rightarrow>
          if w = w' \<and> y < int w
          then Some (IntVal w (take_bit w (drop_bit (nat y) (signed_take_bit (w - 1) x))))
          else None
      | _ \<Rightarrow> None)"

definition bitwise :: "(int \<Rightarrow> int \<Rightarrow> int) \<Rightarrow> val \<Rightarrow> val \<Rightarrow> val option" where
  "bitwise f a b =
     (case (a, b) of
        (IntVal w x, IntVal w' y) \<Rightarrow> if w = w' then Some (IntVal w (take_bit w (f x y))) else None
      | _ \<Rightarrow> None)"

definition rmw :: "AtomicRMWKind \<Rightarrow> int \<Rightarrow> int \<Rightarrow> int" where
  "rmw kind old v = (case kind of andi \<Rightarrow> old AND v | ori \<Rightarrow> old OR v)"

fun eval :: "(nat \<Rightarrow> val) \<Rightarrow> buffer \<Rightarrow> operation \<Rightarrow> val option" where
  "eval env m (BlockArgument n) = Some (env n)"
| "eval env m (ConstantOp ty v) = Some (IntVal (getIntOrFloatBitWidth ty) v)"
| "eval env m (ConstantIndexOp v) = Some (IndexVal v)"
| "eval env m (AffineApplyOp e x) =
     (case eval env m x of
        Some (IndexVal i) \<Rightarrow> map_option IndexVal (evalAffine e i)
      | _ \<Rightarrow> None)"
| "eval env m (IndexCastOp ty x) =
     (case eval env m x of
        Some (IndexVal i) \<Rightarrow>
          Some (IntVal (getIntOrFloatBitWidth ty) (take_bit (getIntOrFloatBitWidth ty) i))
      | _ \<Rightarrow> None)"
| "eval env m (ExtUIOp ty x) =
     (case eval env m x of
        Some (IntVal w a) \<Rightarrow>
          if w < getIntOrFloatBitWidth ty then Some (IntVal (getIntOrFloatBitWidth ty) a) else None
      | _ \<Rightarrow> None)"
| "eval env m (TruncIOp ty x) =
     (case eval env m x of
        Some (IntVal w a) \<Rightarrow>
          if getIntOrFloatBitWidth ty < w
          then Some (IntVal (getIntOrFloatBitWidth ty) (take_bit (getIntOrFloatBitWidth ty) a))
          else None
      | _ \<Rightarrow> None)"
| "eval env m (ShLIOp x y) =
     (case (eval env m x, eval env m y) of (Some a, Some b) \<Rightarrow> shli a b | _ \<Rightarrow> None)"
| "eval env m (ShRSIOp x y) =
     (case (eval env m x, eval env m y) of (Some a, Some b) \<Rightarrow> shrsi a b | _ \<Rightarrow> None)"
| "eval env m (AndIOp x y) =
     (case (eval env m x, eval env m y) of (Some a, Some b) \<Rightarrow> bitwise (AND) a b | _ \<Rightarrow> None)"
| "eval env m (XOrIOp x y) =
     (case (eval env m x, eval env m y) of (Some a, Some b) \<Rightarrow> bitwise (XOR) a b | _ \<Rightarrow> None)"
| "eval env m (LoadOp mr idxs) =
     (case (eval env m mr, indexValues (map (eval env m) idxs)) of
        (Some MemRefVal, Some ixs) \<Rightarrow> map_option (IntVal (elemWidth m)) (loadCell m ixs)
      | _ \<Rightarrow> None)"
| "eval env m (AtomicRMWOp kind v mr idxs) =
     (case (eval env m mr, indexValues (map (eval env m) idxs)) of
        (Some MemRefVal, Some ixs) \<Rightarrow> map_option (IntVal (elemWidth m)) (loadCell m ixs)
      | _ \<Rightarrow> None)"
| "eval env m (SubViewOp ty src off sz strs) = eval env m src"

text \<open>
  Running an inserted operation: an atomic read-modify-write updates its container, every
  other operation of the file is pure and leaves the buffer as it is.
\<close>

fun exec :: "(nat \<Rightarrow> val) \<Rightarrow> operation \<Rightarrow> buffer \<Rightarrow> buffer option" where
  "exec env (AtomicRMWOp kind v mr idxs) m =
     (case (eval env m v, eval env m mr, indexValues (map (eval env m) idxs)) of
        (Some (IntVal w x), Some MemRefVal, Some ixs) \<Rightarrow>
          (case loadCell m ixs of
             Some old \<Rightarrow> if w = elemWidth m then storeCell m ixs (rmw kind old x) else None
           | None \<Rightarrow> None)
      | _ \<Rightarrow> None)"
| "exec env opn m = Some m"

fun execAll :: "(nat \<Rightarrow> val) \<Rightarrow> operation list \<Rightarrow> buffer \<Rightarrow> buffer option" where
  "execAll env [] m = Some m"
| "execAll env (opn # ops) m =
     (case exec env opn m of Some m' \<Rightarrow> execAll env ops m' | None \<Rightarrow> None)"

subsection \<open>Utility functions\<close>

text \<open>
  \<open>getOffsetForBitwidth\<close>: the bit offset of the element at position \<open>srcIdx\<close> within its
  container, from the left or, with \<open>rightOffset\<close>, from the right.
\<close>

definition getOffsetForBitwidth ::
  "opFoldResult \<Rightarrow> nat \<Rightarrow> nat \<Rightarrow> bool \<Rightarrow> rewriter \<Rightarrow> cxx_error + operation \<times> rewriter" where
  "getOffsetForBitwidth srcIdx sourceBits targetBits rightOffset builder =
     andThen (cxx_mod (int targetBits) (int sourceBits)) (\<lambda>r.
     andThen (cxx_assert (r = 0)) (\<lambda>_.
     andThen (cxx_div (int targetBits) (int sourceBits)) (\<lambda>scaleFactor.
       (let s0 = AffineSymbol0;
            offsetExpr =
              (if rightOffset
               then affine_mul (affine_rsub (scaleFactor - 1) (affine_mod s0 scaleFactor))
                      (int sourceBits)
               else affine_mul (affine_mod s0 scaleFactor) (int sourceBits));
            (offsetVal, b1) = makeComposedFoldedAffineApply offsetExpr srcIdx builder;
            (bitOffset, b2) = getValueOrCreateConstantIndexOp offsetVal b1;
            dstType = getIntegerType targetBits
        in Inr (create (IndexCastOp dstType bitOffset) b2)))))"

text \<open>
  \<open>getAtomicWriteMask\<close>: the mask that clears the bits of one element before the new
  bits are written. \<open>(1 << srcBits) - 1\<close> is \<open>int\<close> arithmetic in the source.
\<close>

definition getAtomicWriteMask ::
  "opFoldResult \<Rightarrow> nat \<Rightarrow> nat \<Rightarrow> operation \<Rightarrow> rewriter \<Rightarrow> cxx_error + operation \<times> rewriter"
  where
  "getAtomicWriteMask linearizedIndices srcBits dstBits bitwidthOffset builder =
     andThen (shl_int32 1 (int srcBits)) (\<lambda>shifted.
     andThen (sub_int32 shifted 1) (\<lambda>maskValue.
       (let dstIntegerType = getIntegerType dstBits;
            maskRightAlignedAttr = getIntegerAttr dstIntegerType maskValue;
            (maskRightAligned, b1) =
              create (ConstantOp dstIntegerType maskRightAlignedAttr) builder;
            (writeMaskInverse, b2) = create (ShLIOp maskRightAligned bitwidthOffset) b1;
            flipValAttr = getIntegerAttr dstIntegerType (- 1);
            (flipVal, b3) = create (ConstantOp dstIntegerType flipValAttr) b2
        in Inr (create (XOrIOp writeMaskInverse flipVal) b3))))"

text \<open>
  \<open>getIndicesForLoadOrStore\<close>: the index of the container, the linearized index divided
  by the number of elements per container.
\<close>

definition getIndicesForLoadOrStore ::
  "opFoldResult \<Rightarrow> nat \<Rightarrow> nat \<Rightarrow> rewriter \<Rightarrow> cxx_error + operation \<times> rewriter" where
  "getIndicesForLoadOrStore linearizedIndex srcBits dstBits builder =
     andThen (cxx_div (int dstBits) (int srcBits)) (\<lambda>scaler.
       (let s0 = AffineSymbol0;
            (scaledLinearizedIndices, b1) =
              makeComposedFoldedAffineApply (affine_floorDiv s0 scaler) linearizedIndex builder
        in Inr (getValueOrCreateConstantIndexOp scaledLinearizedIndices b1)))"

subsection \<open>ConvertMemRefLoad\<close>

text \<open>
  The pattern's inputs are what it reads from the operation and its adaptor: the converted
  memref type, the old element type, the converted memref value, and \<open>resultTy\<close>, the type
  that the type converter gives for the old element type (the converter of scalar types
  is outside the file). \<open>getLinearizedSrcIndices\<close> only forwards to
  \<open>memref::getLinearizedMemRefOffsetAndSize\<close>, which is outside the file as well: its
  result, the linearized index at element granularity, is the parameter
  \<open>linearizedIndices\<close>, and the operations it inserts are not recorded.
\<close>

definition ConvertMemRefLoad ::
  "memRefType \<Rightarrow> mlirType \<Rightarrow> mlirType \<Rightarrow> operation \<Rightarrow> opFoldResult \<Rightarrow> rewriter
     \<Rightarrow> cxx_error + LogicalResult \<times> rewriter" where
  "ConvertMemRefLoad convertedType oldElementType resultTy memref linearizedIndices rewriter =
     (let convertedElementType = elementType convertedType;
          srcBits = getIntOrFloatBitWidth oldElementType;
          dstBits = getIntOrFloatBitWidth convertedElementType
      in andThen (cxx_mod (int dstBits) (int srcBits)) (\<lambda>r.
         if r \<noteq> 0
         then Inr (notifyMatchFailure ''only dstBits % srcBits == 0 supported'' rewriter)
         else
           andThen
             (if getRank convertedType = 0 then Inr (create (LoadOp memref []) rewriter)
              else
                andThen (getIndicesForLoadOrStore linearizedIndices srcBits dstBits rewriter)
                  (\<lambda>(idx, ra).
                (let (newLoad, rb) = create (LoadOp memref [idx]) ra
                 in andThen (getOffsetForBitwidth linearizedIndices srcBits dstBits False rb)
                      (\<lambda>(bitwidthOffset, rc).
                    Inr (create (ShRSIOp newLoad bitwidthOffset) rc)))))
             (\<lambda>(bitsLoad, r1).
           andThen
             (if resultTy = convertedElementType
              then
                andThen (shl_int32 1 (int srcBits)) (\<lambda>shifted.
                andThen (sub_int32 shifted 1) (\<lambda>maskValue.
                  (let (mask, rd) =
                         create (ConstantOp convertedElementType
                                   (getIntegerAttr convertedElementType maskValue)) r1
                   in Inr (create (AndIOp bitsLoad mask) rd))))
              else Inr (create (TruncIOp resultTy bitsLoad) r1))
             (\<lambda>(result, r2). Inr (success, replaceOp result r2)))))"

subsection \<open>ConvertMemrefStore\<close>

text \<open>
  As for the load; \<open>val\<close> is the value to store, as the adaptor gives it.
\<close>

definition ConvertMemrefStore ::
  "memRefType \<Rightarrow> mlirType \<Rightarrow> operation \<Rightarrow> operation \<Rightarrow> opFoldResult \<Rightarrow> rewriter
     \<Rightarrow> cxx_error + LogicalResult \<times> rewriter" where
  "ConvertMemrefStore convertedType oldElementType memref val linearizedIndices rewriter =
     (let convertedElementType = elementType convertedType;
          srcBits = getIntOrFloatBitWidth oldElementType;
          dstBits = getIntOrFloatBitWidth convertedElementType;
          dstIntegerType = getIntegerType dstBits
      in andThen (cxx_mod (int dstBits) (int srcBits)) (\<lambda>r.
         if r \<noteq> 0
         then Inr (notifyMatchFailure ''only dstBits % srcBits == 0 supported'' rewriter)
         else
           (let (extendedInput, r1) = create (ExtUIOp dstIntegerType val) rewriter
            in if getRank convertedType = 0
               then
                 (let shiftValAttr = getIntegerAttr dstIntegerType (int dstBits - int srcBits);
                      (shiftVal, r2) = create (ConstantOp dstIntegerType shiftValAttr) r1;
                      (alignedVal, r3) = create (ShLIOp extendedInput shiftVal) r2
                  in andThen (shl_int32 1 (int dstBits - int srcBits)) (\<lambda>shifted.
                     andThen (sub_int32 shifted 1) (\<lambda>maskValue.
                       (let writeMaskValAttr = getIntegerAttr dstIntegerType maskValue;
                            (writeMask, r4) =
                              create (ConstantOp dstIntegerType writeMaskValAttr) r3;
                            (clear, r5) = create (AtomicRMWOp andi writeMask memref []) r4;
                            (write, r6) = create (AtomicRMWOp ori alignedVal memref []) r5
                        in Inr (success, eraseOp r6)))))
               else
                 andThen (getIndicesForLoadOrStore linearizedIndices srcBits dstBits r1)
                   (\<lambda>(storeIndices, r2).
                 andThen (getOffsetForBitwidth linearizedIndices srcBits dstBits True r2)
                   (\<lambda>(bitwidthOffset, r3).
                 andThen (getAtomicWriteMask linearizedIndices srcBits dstBits
                            bitwidthOffset r3)
                   (\<lambda>(writeMask, r4).
                   (let (alignedVal, r5) = create (ShLIOp extendedInput bitwidthOffset) r4;
                        (clear, r6) =
                          create (AtomicRMWOp andi writeMask memref [storeIndices]) r5;
                        (write, r7) =
                          create (AtomicRMWOp ori alignedVal memref [storeIndices]) r6
                    in Inr (success, eraseOp r7))))))))"

subsection \<open>The type converter\<close>

text \<open>
  Modelled from the spec: \<open>getStridesAndOffset\<close> is outside the file. A buffer type has a
  "layout (base offset + per-dimension strides, each fixed or dynamic)"; the conversion is
  rejected "if stride/offset cannot be statically determined enough to proceed". A strided
  layout gives its own strides and offset; the identity layout gives the row-major strides
  of the shape (dynamic once a dynamic dimension enters the product) and offset 0; any
  other layout map fails.
\<close>

fun suffixProduct :: "int list \<Rightarrow> int" where
  "suffixProduct [] = 1"
| "suffixProduct (d # ds) =
     (if d = kDynamic \<or> suffixProduct ds = kDynamic then kDynamic else d * suffixProduct ds)"

fun identityStrides :: "int list \<Rightarrow> int list" where
  "identityStrides [] = []"
| "identityStrides (d # ds) = suffixProduct ds # identityStrides ds"

definition getStridesAndOffset :: "memRefType \<Rightarrow> (int list \<times> int) option" where
  "getStridesAndOffset ty =
     (case layout ty of
        NoLayout \<Rightarrow> Some (identityStrides (shape ty), 0)
      | StridedLayoutAttr offset strides \<Rightarrow> Some (strides, offset)
      | AffineMapLayout n \<Rightarrow> None)"

text \<open>
  \<open>getLinearizedShape\<close>. The loop over the shape returns early at the first dynamic
  dimension; \<open>linearizeDims\<close> is the loop, with \<open>None\<close> for the early return. The
  element count and the rounding sum are \<open>int64_t\<close> arithmetic, \<open>scale\<close> is an \<open>int\<close>.
\<close>

fun linearizeDims :: "int \<Rightarrow> int list \<Rightarrow> cxx_error + int option" where
  "linearizeDims linearizedShape [] = Inr (Some linearizedShape)"
| "linearizeDims linearizedShape (d # ds) =
     (if d = kDynamic then Inr None
      else andThen (mul_int64 linearizedShape d) (\<lambda>linearizedShape'.
             linearizeDims linearizedShape' ds))"

definition getLinearizedShape :: "memRefType \<Rightarrow> nat \<Rightarrow> nat \<Rightarrow> cxx_error + int list" where
  "getLinearizedShape ty srcBits dstBits =
     (if getRank ty = 0 then Inr []
      else
        andThen (linearizeDims 1 (shape ty)) (\<lambda>elementCount.
          (case elementCount of
             None \<Rightarrow> Inr [kDynamic]
           | Some linearizedShape \<Rightarrow>
               andThen (cxx_div (int dstBits) (int srcBits)) (\<lambda>scale.
               andThen (add_int64 linearizedShape scale) (\<lambda>padded.
               andThen (sub_int64 padded 1) (\<lambda>rounded.
               andThen (cxx_div rounded scale) (\<lambda>linearizedShape'.
                 Inr [linearizedShape'])))))))"

text \<open>
  The conversion registered by \<open>populateMemRefNarrowTypeEmulationConversions\<close>, with
  \<open>loadStoreWidth\<close> for \<open>typeConverter.getLoadStoreBitwidth()\<close>. \<open>Inr None\<close> is
  \<open>std::nullopt\<close>. \<open>IntegerType::get\<close> yields a type for every width, so the source's test
  of its result for null has no branch here. The arguments of the final \<open>MemRefType::get\<close>
  are evaluated before the call, the shape among them; the verification of these
  arguments inside \<open>MemRefType::get\<close> is outside the file and is not modelled.
\<close>

definition MemRefType_get ::
  "int list \<Rightarrow> mlirType \<Rightarrow> layoutAttr \<Rightarrow> nat \<Rightarrow> memRefType" where
  "MemRefType_get shp elemTy lay space =
     \<lparr>shape = shp, elementType = elemTy, layout = lay, memorySpace = space\<rparr>"

definition convertMemRefType :: "nat \<Rightarrow> memRefType \<Rightarrow> cxx_error + memRefType option" where
  "convertMemRefType loadStoreWidth ty =
     (case elementType ty of
        FloatType w \<Rightarrow> Inr (Some ty)
      | IntegerType width sg \<Rightarrow>
          if width \<ge> loadStoreWidth then Inr (Some ty)
          else
            (case getStridesAndOffset ty of
               None \<Rightarrow> Inr None
             | Some (strides, offset) \<Rightarrow>
                 if strides \<noteq> [] \<and> last strides \<noteq> 1 then Inr None
                 else
                   (let newElemTy = IntegerType loadStoreWidth sg
                    in andThen
                         (if offset \<noteq> 0
                          then
                            (if offset = kDynamic
                             then Inr (Some (StridedLayoutAttr offset [1]))
                             else
                               andThen (mul_int64 offset (int width)) (\<lambda>bits.
                               andThen (cxx_mod bits (int loadStoreWidth)) (\<lambda>r.
                               if r \<noteq> 0 then Inr None
                               else
                                 andThen (mul_int64 offset (int width)) (\<lambda>bits'.
                                 andThen (cxx_div bits' (int loadStoreWidth)) (\<lambda>offset'.
                                 Inr (Some (StridedLayoutAttr offset' [1])))))))
                          else Inr (Some NoLayout))
                         (\<lambda>layoutAttr.
                       (case layoutAttr of
                          None \<Rightarrow> Inr None
                        | Some lay \<Rightarrow>
                            andThen (getLinearizedShape ty width loadStoreWidth) (\<lambda>shp.
                              Inr (Some (MemRefType_get shp newElemTy lay
                                           (memorySpace ty)))))))))"

subsection \<open>ConvertMemRefSubview\<close>

record subViewOp =
  resultType :: memRefType        \<comment> \<open>\<open>op.getType()\<close>\<close>
  staticOffsets :: "int list"
  staticSizes :: "int list"
  staticStrides :: "int list"

definition getStaticOffset :: "subViewOp \<Rightarrow> nat \<Rightarrow> int" where
  "getStaticOffset opn idx = staticOffsets opn ! idx"

definition getStaticSize :: "subViewOp \<Rightarrow> nat \<Rightarrow> int" where
  "getStaticSize opn idx = staticSizes opn ! idx"

definition getStaticStride :: "subViewOp \<Rightarrow> nat \<Rightarrow> int" where
  "getStaticStride opn idx = staticStrides opn ! idx"

text \<open>
  Modelled from the spec: \<open>ceilDiv\<close> of \<open>mlir/Support/MathExtras.h\<close> is outside the file;
  the new size is "\<open>ceilDiv(size, scale)\<close>", the quotient rounded towards plus infinity,
  for a divisor that is not zero.
\<close>

definition ceilDiv :: "int \<Rightarrow> int \<Rightarrow> cxx_error + int" where
  "ceilDiv lhs rhs = andThen (cxx_assert (rhs \<noteq> 0)) (\<lambda>_. Inr (- ((- lhs) div rhs)))"

text \<open>
  The pattern reads the subview's result type and static operands, and the converted
  source value from the adaptor. \<open>convertType\<close> is the pattern's type converter on memref
  types, with \<open>Inr None\<close> when it yields no type; the pass installs \<open>convertMemRefType\<close>
  there. The text of the type that the first diagnostic appends is left out.
\<close>

definition ConvertMemRefSubview ::
  "(memRefType \<Rightarrow> cxx_error + memRefType option) \<Rightarrow> subViewOp \<Rightarrow> operation \<Rightarrow> rewriter
     \<Rightarrow> cxx_error + LogicalResult \<times> rewriter" where
  "ConvertMemRefSubview convertType opn source rewriter =
     andThen (convertType (resultType opn)) (\<lambda>converted.
     (case converted of
        None \<Rightarrow> Inr (notifyMatchFailure ''failed to convert memref type: '' rewriter)
      | Some newTy \<Rightarrow>
          (let convertedElementType = elementType newTy;
               oldElementType = elementType (resultType opn);
               srcBits = getIntOrFloatBitWidth oldElementType;
               dstBits = getIntOrFloatBitWidth convertedElementType
           in andThen (cxx_mod (int dstBits) (int srcBits)) (\<lambda>r.
              if r \<noteq> 0
              then Inr (notifyMatchFailure ''only dstBits % srcBits == 0 supported'' rewriter)
              else if getRank (resultType opn) \<noteq> 1
              then Inr (notifyMatchFailure ''subview with rank > 1 is not supported'' rewriter)
              else if getStaticStride opn 0 \<noteq> 1
              then Inr (notifyMatchFailure ''subview with stride != 1 is not supported''
                          rewriter)
              else
                (let size = getStaticSize opn 0;
                     offset = getStaticOffset opn 0
                 in if size = kDynamic \<or> offset = kDynamic
                    then Inr (notifyMatchFailure
                                ''subview with dynamic size or offset is not supported''
                                rewriter)
                    else
                      andThen (cxx_div (int dstBits) (int srcBits)) (\<lambda>elementsPerByte.
                      andThen (cxx_mod offset elementsPerByte) (\<lambda>r'.
                      if r' \<noteq> 0
                      then Inr (notifyMatchFailure
                             (''subview with offset not multiple of elementsPerByte is not ''
                               @ ''supported'') rewriter)
                      else
                        andThen (ceilDiv size elementsPerByte) (\<lambda>size'.
                        andThen (cxx_div offset elementsPerByte) (\<lambda>offset'.
                          Inr (success,
                               replaceOpWithNewOp
                                 (SubViewOp newTy source offset' size' (staticStrides opn))
                                 rewriter))))))))))"

subsection \<open>Notions used to state the properties\<close>

definition ofrValue :: "(nat \<Rightarrow> val) \<Rightarrow> buffer \<Rightarrow> opFoldResult \<Rightarrow> val option" where
  \<comment> \<open>the run-time value of a constant or of an IR value\<close>
  "ofrValue env m ofr =
     (case ofr of Attribute i \<Rightarrow> Some (IndexVal i) | Value v \<Rightarrow> eval env m v)"

definition emptyRewriter :: rewriter where
  "emptyRewriter = \<lparr>createdOps = [], root = Unmodified\<rparr>"

definition insertedOps :: "rewriter \<Rightarrow> rewriter \<Rightarrow> operation list" where
  \<comment> \<open>the operations that a pattern has inserted between two states of the rewriter\<close>
  "insertedOps before after = drop (length (createdOps before)) (createdOps after)"

definition emittedValue ::
  "(nat \<Rightarrow> val) \<Rightarrow> buffer \<Rightarrow> cxx_error + operation \<times> rewriter \<Rightarrow> val option" where
  \<comment> \<open>the run-time value of the IR value that a utility function returns\<close>
  "emittedValue env m r = (case r of Inr (v, b) \<Rightarrow> eval env m v | Inl e \<Rightarrow> None)"

definition replacedValue ::
  "(nat \<Rightarrow> val) \<Rightarrow> buffer \<Rightarrow> cxx_error + LogicalResult \<times> rewriter \<Rightarrow> val option" where
  \<comment> \<open>the run-time value of the value that a successful pattern puts in place of the
      rewritten operation\<close>
  "replacedValue env m r =
     (case r of
        Inr (success, rw) \<Rightarrow>
          (case root rw of ReplacedWith v \<Rightarrow> eval env m v | _ \<Rightarrow> None)
      | _ \<Rightarrow> None)"

definition bufferAfter ::
  "(nat \<Rightarrow> val) \<Rightarrow> rewriter \<Rightarrow> cxx_error + LogicalResult \<times> rewriter \<Rightarrow> buffer
     \<Rightarrow> buffer option" where
  \<comment> \<open>the buffer after running the operations that a successful pattern has inserted in
      place of the erased operation\<close>
  "bufferAfter env before r m =
     (case r of
        Inr (success, rw) \<Rightarrow>
          (case root rw of Erased \<Rightarrow> execAll env (insertedOps before rw) m | _ \<Rightarrow> None)
      | _ \<Rightarrow> None)"

definition convertAgain ::
  "nat \<Rightarrow> cxx_error + memRefType option \<Rightarrow> cxx_error + memRefType option" where
  \<comment> \<open>the converter applied to the type that a first conversion has returned\<close>
  "convertAgain loadStoreWidth r =
     andThen r (\<lambda>converted.
       (case converted of None \<Rightarrow> Inr None | Some ty \<Rightarrow> convertMemRefType loadStoreWidth ty))"

text \<open>
  The bit offset as the specification writes it: \<open>offset(index, sourceWidth, targetWidth,
  rightAligned)\<close> with \<open>scale = targetWidth / sourceWidth\<close>.
\<close>

definition spec_offset :: "int \<Rightarrow> nat \<Rightarrow> nat \<Rightarrow> bool \<Rightarrow> int" where
  "spec_offset i s t rightAligned =
     (if rightAligned then (int (t div s) - 1 - i mod int (t div s)) * int s
      else (i mod int (t div s)) * int s)"

text \<open>
  Operations without an effect on the buffer, and a rewriter state that has only gained
  such operations since an earlier state.
\<close>

fun isPure :: "operation \<Rightarrow> bool" where
  "isPure (AtomicRMWOp kind v mr idxs) = False"
| "isPure opn = True"

definition extends :: "rewriter \<Rightarrow> rewriter \<Rightarrow> bool" where
  "extends b b' =
     (\<exists>xs. createdOps b' = createdOps b @ xs \<and> list_all isPure xs \<and> root b' = root b)"

subsection \<open>Concrete inputs\<close>

text \<open>
  The inputs of the examples: a buffer of ten 4-bit elements and its converted type with
  8-bit containers, an environment that binds argument 0 to the buffer and argument 1 to
  the 4-bit value \<open>0xB\<close>, and three subviews.
\<close>

definition memref10xi4 :: memRefType where
  "memref10xi4 =
     \<lparr>shape = [10], elementType = IntegerType 4 Unsigned, layout = NoLayout, memorySpace = 0\<rparr>"

definition memref5xi8 :: memRefType where
  "memref5xi8 =
     \<lparr>shape = [5], elementType = IntegerType 8 Signless, layout = NoLayout, memorySpace = 0\<rparr>"

definition i4 :: mlirType where
  "i4 = IntegerType 4 Signless"

definition env0 :: "nat \<Rightarrow> val" where
  "env0 n = (if n = 0 then MemRefVal else IntVal 4 11)"

definition subview_stride2 :: subViewOp where
  \<comment> \<open>\<open>memref.subview %a[0][4][2] : memref<8xi8> to memref<4xi8, strided<[2]>>\<close>\<close>
  "subview_stride2 =
     \<lparr>resultType = \<lparr>shape = [4], elementType = IntegerType 8 Signless,
                     layout = StridedLayoutAttr 0 [2], memorySpace = 0\<rparr>,
      staticOffsets = [0], staticSizes = [4], staticStrides = [2]\<rparr>"

definition subview_2d :: subViewOp where
  \<comment> \<open>\<open>memref.subview %a[0, 0][2, 4][2, 1] : memref<4x4xi4> to
      memref<2x4xi4, strided<[8, 1]>>\<close>\<close>
  "subview_2d =
     \<lparr>resultType = \<lparr>shape = [2, 4], elementType = IntegerType 4 Signless,
                     layout = StridedLayoutAttr 0 [8, 1], memorySpace = 0\<rparr>,
      staticOffsets = [0, 0], staticSizes = [2, 4], staticStrides = [2, 1]\<rparr>"

section \<open>Properties\<close>

subsection \<open>Arithmetic and bits\<close>

lemma sdiv_nat: "int a sdiv int b = int (a div b)"
  by (simp add: signed_divide_int_def sgn_if zdiv_int)

lemma scale_pos: "(0::nat) < s \<Longrightarrow> s dvd t \<Longrightarrow> 0 < t \<Longrightarrow> 0 < t div s"
proof -
  assume a: "(0::nat) < s" "s dvd t" "0 < t"
  then obtain k where k: "t = s * k" by (auto simp: dvd_def)
  with a have "0 < k" by (cases k) simp_all
  with a k show "0 < t div s" by simp
qed

lemma scale_mult: "s dvd t \<Longrightarrow> int (t div s) * int s = int t"
  by (metis dvd_div_mult_self of_nat_mult)

lemma offset_bounds:
  assumes "0 < s" "s dvd t" "0 \<le> x" "x < int (t div s)"
  shows "0 \<le> x * int s" "x * int s + int s \<le> int t" "x * int s < 2 ^ t"
proof -
  show "0 \<le> x * int s" using assms by simp
  have "(x + 1) * int s \<le> int (t div s) * int s"
    using assms by (intro mult_right_mono) simp_all
  then show le: "x * int s + int s \<le> int t"
    using scale_mult[OF assms(2)] by (simp add: algebra_simps)
  have "x * int s < int t" using le assms(1) by simp
  also have "\<dots> < 2 ^ t" by (metis of_nat_less_two_power)
  finally show "x * int s < 2 ^ t" .
qed

lemma smod_nat: "int a smod int b = int (a mod b)"
  by (simp add: signed_modulo_int_def sgn_if zmod_int)

lemma cxx_mod_nat: "0 < b \<Longrightarrow> cxx_mod (int a) (int b) = Inr (int (a mod b))"
  by (simp add: cxx_mod_def smod_nat)

lemma cxx_div_nat: "0 < b \<Longrightarrow> cxx_div (int a) (int b) = Inr (int (a div b))"
  by (simp add: cxx_div_def sdiv_nat)

lemma mask_const:
  assumes "s < 31"
  shows "shl_int32 1 (int s) = Inr (2 ^ s)" and "sub_int32 (2 ^ s) 1 = Inr (mask s)"
proof -
  have p: "(2::int) ^ s < 2 ^ 31" using power_strict_increasing[OF assms, of "2::int"] by simp
  have z: "(0::int) < 2 ^ s" by simp
  have a: "signed_take_bit 31 ((2::int) ^ s) = 2 ^ s"
    using p z by (intro signed_take_bit_int_eq_self) linarith+
  have lt: "(2::int) ^ s < 2 ^ 32"
    using power_strict_increasing[of s 32 "2::int"] assms by simp
  show "shl_int32 1 (int s) = Inr (2 ^ s)"
    using assms a lt by (simp add: shl_int32_def)
  have c1: "- 2147483648 \<le> (2::int) ^ s - 1" using z by linarith
  have c2: "(2::int) ^ s - 1 < 2147483648" using p by simp
  show "sub_int32 (2 ^ s) 1 = Inr (mask s)"
    using c1 c2 by (simp add: sub_int32_def mask_eq_exp_minus_1)
qed

lemma attr_mask: "s \<le> t \<Longrightarrow> getIntegerAttr (IntegerType t sg) (mask s) = mask s"
  by (auto simp add: getIntegerAttr_def bit_eq_iff bit_simps)

lemma attr_flip: "getIntegerAttr (IntegerType t Signless) (- 1) = mask t"
  by (auto simp add: getIntegerAttr_def bit_eq_iff bit_simps)


lemma xor_flip: "take_bit t x XOR mask t = take_bit t (NOT x)" for x :: int
  by (auto simp add: bit_eq_iff bit_simps)

lemma linearizeDims_eq:
  "linearizeDims acc ds = Inr r \<Longrightarrow>
     r = (if kDynamic \<in> set ds then None else Some (acc * prod_list ds))"
proof (induction ds arbitrary: acc)
  case Nil
  then show ?case by simp
next
  case (Cons d ds)
  show ?case
  proof (cases "d = kDynamic")
    case True
    then show ?thesis using Cons.prems by simp
  next
    case False
    then have "linearizeDims (acc * d) ds = Inr r"
      using Cons.prems
      by (simp add: andThen_def mul_int64_def int64_def split: if_splits)
    from Cons.IH[OF this] False show ?thesis by (simp add: algebra_simps)
  qed
qed

lemma ceil_div:
  assumes "0 \<le> n" "0 < k"
  shows "(n + int k - 1) sdiv int k = \<lceil>real_of_int n / real k\<rceil>"
proof -
  let ?k = "int k"
  have kp: "0 < ?k" using assms by simp
  have a: "(n + ?k - 1) sdiv ?k = (n + ?k - 1) div ?k"
    using assms by (simp add: signed_divide_int_def sgn_if abs_if)
  have "\<lceil>real_of_int n / real k\<rceil> = \<lceil>real_of_int n / real_of_int ?k\<rceil>" by simp
  also have "\<dots> = - (- n div ?k)" by (rule ceiling_divide_eq_div)
  also have "\<dots> = (n + ?k - 1) div ?k"
  proof (cases "n mod ?k = 0")
    case True
    have e: "n = ?k * (n div ?k)" using True mult_div_mod_eq[of ?k n] by simp
    have "(n + ?k - 1) div ?k = n div ?k"
    proof (rule int_div_pos_eq)
      show "n + ?k - 1 = ?k * (n div ?k) + (?k - 1)" using e by linarith
      show "0 \<le> ?k - 1" using kp by linarith
      show "?k - 1 < ?k" by linarith
    qed
    then show ?thesis using True kp by (simp add: zdiv_zminus1_eq_if)
  next
    case False
    have r0: "0 \<le> n mod ?k" using kp by simp
    have r1: "0 < n mod ?k" using False r0 by linarith
    have r2: "n mod ?k < ?k" using kp by simp
    note r = r1 r2
    have "(n + ?k - 1) div ?k = n div ?k + 1"
    proof (rule int_div_pos_eq)
      show "n + ?k - 1 = ?k * (n div ?k + 1) + (n mod ?k - 1)"
        using mult_div_mod_eq[of ?k n] by (simp add: algebra_simps)
      show "0 \<le> n mod ?k - 1" using r by linarith
      show "n mod ?k - 1 < ?k" using r by linarith
    qed
    then show ?thesis using False kp by (simp add: zdiv_zminus1_eq_if)
  qed
  finally show ?thesis using a by simp
qed

lemma smod_zero_iff: "0 < b \<Longrightarrow> (a smod b = 0) = (a mod b = 0)" for a b :: int
proof -
  assume b: "0 < b"
  have r: "0 \<le> a mod b" "a mod b < b" using b by simp_all
  show ?thesis
    using r by (auto simp add: signed_modulo_int_eq_modulo_int dvd_eq_mod_eq_0)
qed

lemma sdiv_exact: "a mod b = 0 \<Longrightarrow> a sdiv b = a div b" for a b :: int
  by (simp add: signed_divide_int_eq_divide_int dvd_eq_mod_eq_0)

lemma prod_list_nonneg: "\<forall>d\<in>set ds. (0::int) \<le> d \<Longrightarrow> 0 \<le> prod_list ds"
  by (induction ds) simp_all

lemma scale_ge1: "0 < width \<Longrightarrow> width < loadStoreWidth \<Longrightarrow> 0 < loadStoreWidth div width" for width :: nat
  by (simp add: div_greater_zero_iff)

subsection \<open>What the utility functions emit\<close>

lemma extends_refl: "extends b b"
  by (simp add: extends_def)


lemma extends_create: "isPure opn \<Longrightarrow> extends b (snd (create opn b))"
  by (simp add: extends_def create_def)

lemma extends_affineApply: "extends b (snd (makeComposedFoldedAffineApply e x b))"
  by (cases x) (auto simp add: makeComposedFoldedAffineApply_def extends_def create_def split: option.splits)

lemma extends_constIndex: "extends b (snd (getValueOrCreateConstantIndexOp x b))"
  by (cases x) (auto simp add: getValueOrCreateConstantIndexOp_def extends_def create_def)






lemma offset_emit:
  assumes "0 < s" "s dvd t" "0 < t"
  shows "\<exists>opn b'. getOffsetForBitwidth srcIdx s t r b = Inr (opn, b') \<and> extends b b' \<and>
           (\<forall>m i. ofrValue env m srcIdx = Some (IndexVal i) \<longrightarrow>
                  eval env m opn = Some (IntVal t (spec_offset i s t r)))"
proof -
  have k: "0 < t div s" using assms by (simp add: scale_pos)
  have dv: "t mod s = 0" using assms(2) by simp
  have A: "take_bit t ((i mod int (t div s)) * int s) = (i mod int (t div s)) * int s" for i
  proof -
    have m1: "0 \<le> i mod int (t div s)" "i mod int (t div s) < int (t div s)"
      using k by simp_all
    show ?thesis using offset_bounds[OF assms(1,2) m1] by (simp add: take_bit_int_eq_self)
  qed
  have B: "take_bit t ((int (t div s) - 1 - i mod int (t div s)) * int s)
            = (int (t div s) - 1 - i mod int (t div s)) * int s" for i
  proof -
    have m1: "0 \<le> i mod int (t div s)" "i mod int (t div s) < int (t div s)"
      using k by simp_all
    then have m2: "0 \<le> int (t div s) - 1 - i mod int (t div s)"
      "int (t div s) - 1 - i mod int (t div s) < int (t div s)" by simp_all
    show ?thesis using offset_bounds[OF assms(1,2) m2] by (simp add: take_bit_int_eq_self)
  qed
  show ?thesis
    using k A B dv assms(1)
    by (cases srcIdx)
       (auto simp add: ofrValue_def getOffsetForBitwidth_def makeComposedFoldedAffineApply_def
          getValueOrCreateConstantIndexOp_def create_def getIntegerType_def cxx_div_nat
          cxx_mod_nat cxx_assert_def andThen_def affine_mul_def affine_mod_def affine_rsub_def
          Let_def extends_def spec_offset_def algebra_simps)
qed

lemma mask_emit:
  assumes st: "0 < s" "s dvd t" "0 < t" and b: "s < 31"
  shows "\<exists>opn b'. getAtomicWriteMask lin s t off b0 = Inr (opn, b') \<and> extends b0 b' \<and>
           (\<forall>m o'. eval env m off = Some (IntVal t (int o')) \<and> o' < t \<longrightarrow>
                eval env m opn = Some (IntVal t (take_bit t (NOT (push_bit o' (mask s))))))"
proof -
  have sle: "s \<le> t" using st by (simp add: dvd_imp_le)
  show ?thesis
    using sle
    by (auto simp add: getAtomicWriteMask_def Let_def split_def create_def getIntegerType_def
          mask_const[OF b] attr_mask attr_flip shli_def bitwise_def xor_flip
          take_bit_not_take_bit andThen_def extends_def)
qed

subsection \<open>What the load and store patterns emit\<close>



subsection \<open>The bit-offset calculator\<close>

text \<open>
  C2. For every index \<open>i\<close> and all widths \<open>s\<close>, \<open>t\<close> with \<open>t\<close> a positive multiple of \<open>s\<close>
  and \<open>scale = t / s\<close>, the value that \<open>getOffsetForBitwidth\<close> emits is
  \<open>(i mod scale) * s\<close> without \<open>rightOffset\<close> and \<open>(scale - 1 - i mod scale) * s\<close> with
  it, as an integer of width \<open>t\<close>. The index may be a constant or a run-time value.
\<close>

theorem getOffsetForBitwidth_value:
  assumes "0 < s" and "s dvd t" and "0 < t"
      and "ofrValue env m srcIdx = Some (IndexVal i)"
  shows "emittedValue env m (getOffsetForBitwidth srcIdx s t False b) =
           Some (IntVal t ((i mod int (t div s)) * int s))
       \<and> emittedValue env m (getOffsetForBitwidth srcIdx s t True b) =
           Some (IntVal t ((int (t div s) - 1 - i mod int (t div s)) * int s))"
proof -
  obtain op1 b1 where a: "getOffsetForBitwidth srcIdx s t False b = Inr (op1, b1)"
    "eval env m op1 = Some (IntVal t (spec_offset i s t False))"
    using offset_emit[OF assms(1-3), of srcIdx False b env] assms(4) by blast
  obtain op2 b2 where c: "getOffsetForBitwidth srcIdx s t True b = Inr (op2, b2)"
    "eval env m op2 = Some (IntVal t (spec_offset i s t True))"
    using offset_emit[OF assms(1-3), of srcIdx True b env] assms(4) by blast
  show ?thesis using a c by (simp add: emittedValue_def spec_offset_def)
qed

text \<open>Index 3 of 4-bit elements in 8-bit containers: offset 4 from the left, 0 from the right.\<close>

theorem getOffsetForBitwidth_value_witness:
  "(0::nat) < 4 \<and> (4::nat) dvd 8 \<and> (0::nat) < 8
   \<and> ofrValue env0 \<lparr>elemWidth = 8, cells = []\<rparr> (Attribute 3) = Some (IndexVal 3)
   \<and> emittedValue env0 \<lparr>elemWidth = 8, cells = []\<rparr>
       (getOffsetForBitwidth (Attribute 3) 4 8 False emptyRewriter) = Some (IntVal 8 4)
   \<and> emittedValue env0 \<lparr>elemWidth = 8, cells = []\<rparr>
       (getOffsetForBitwidth (Attribute 3) 4 8 True emptyRewriter) = Some (IntVal 8 0)"
  using getOffsetForBitwidth_value[of 4 8 env0 "\<lparr>elemWidth = 8, cells = []\<rparr>"
          "Attribute 3" 3 emptyRewriter]
  by (simp add: ofrValue_def)

subsection \<open>The write mask\<close>

lemma mask_bits:
  "bit (take_bit t (NOT (push_bit o' ((2::int) ^ s - 1)))) n \<longleftrightarrow>
     n < t \<and> \<not> (o' \<le> n \<and> n < o' + s)"
  by (auto simp add: bit_simps mask_eq_exp_minus_1[symmetric])

text \<open>
  C4. For widths \<open>s\<close>, \<open>t\<close> with \<open>t\<close> a positive multiple of \<open>s\<close> and the offset
  \<open>o = offset(i, s, t, rightAligned = true)\<close> of an index \<open>i\<close>, the value of the mask that
  \<open>getAtomicWriteMask\<close> emits for the offset that \<open>getOffsetForBitwidth\<close> emits is the
  bitwise inverse, in \<open>t\<close> bits, of \<open>((1 << s) - 1) << o\<close>: its zero bits are exactly the
  \<open>s\<close> positions \<open>o, \<dots>, o + s - 1\<close>, which lie inside the container, and its one bits are
  the other \<open>t - s\<close> positions below \<open>t\<close>. The hypothesis \<open>s < 31\<close> is the range in which
  the C++ expression \<open>(1 << srcBits) - 1\<close>, computed on a 32-bit \<open>int\<close>, is defined.
\<close>

theorem getAtomicWriteMask_value:
  assumes st: "0 < s" "s dvd t" "0 < t" and b: "s < 31"
      and lin: "ofrValue env m lin = Some (IndexVal i)"
      and o: "o' = nat (spec_offset i s t True)"
  shows "emittedValue env m
           (andThen (getOffsetForBitwidth lin s t True b0)
              (\<lambda>(bitwidthOffset, b1). getAtomicWriteMask lin s t bitwidthOffset b1)) =
           Some (IntVal t (take_bit t (NOT (push_bit o' (2 ^ s - 1)))))
       \<and> o' + s \<le> t
       \<and> {n. n < t \<and> \<not> bit (take_bit t (NOT (push_bit o' ((2::int) ^ s - 1)))) n}
           = {o' ..< o' + s}
       \<and> {n. bit (take_bit t (NOT (push_bit o' ((2::int) ^ s - 1)))) n}
           = {0 ..< t} - {o' ..< o' + s}"
proof -
  let ?k = "int (t div s)"
  let ?o = "(?k - 1 - i mod ?k) * int s"
  have k: "0 < t div s" using st by (simp add: scale_pos)
  have m1: "0 \<le> i mod ?k" "i mod ?k < ?k" using k by simp_all
  have m2: "0 \<le> ?k - 1 - i mod ?k" "?k - 1 - i mod ?k < ?k" using m1 by simp_all
  note ob = offset_bounds[OF st(1,2) m2]
  have oeq: "spec_offset i s t True = int o'" using ob(1) by (simp add: o spec_offset_def)
  have fit: "o' + s \<le> t" using ob(2) oeq by (simp add: spec_offset_def)
  have olt: "o' < t" using fit st(1) by simp
  obtain off b1 where off: "getOffsetForBitwidth lin s t True b0 = Inr (off, b1)"
    "eval env m off = Some (IntVal t (int o'))"
    using offset_emit[OF st, of lin True b0 env] lin oeq by force
  obtain mk b2 where mk: "getAtomicWriteMask lin s t off b1 = Inr (mk, b2)"
    "eval env m mk = Some (IntVal t (take_bit t (NOT (push_bit o' (mask s)))))"
    using mask_emit[OF st b, of lin off b1 env] off(2) olt by blast
  have e: "emittedValue env m
           (andThen (getOffsetForBitwidth lin s t True b0)
              (\<lambda>(bitwidthOffset, b1). getAtomicWriteMask lin s t bitwidthOffset b1)) =
           Some (IntVal t (take_bit t (NOT (push_bit o' (2 ^ s - 1)))))"
    using off(1) mk by (simp add: emittedValue_def andThen_def mask_eq_exp_minus_1)
  have z: "{n. n < t \<and> \<not> bit (take_bit t (NOT (push_bit o' ((2::int) ^ s - 1)))) n}
             = {o' ..< o' + s}"
    using fit by (auto simp add: mask_bits)
  have n: "{n. bit (take_bit t (NOT (push_bit o' ((2::int) ^ s - 1)))) n}
             = {0 ..< t} - {o' ..< o' + s}"
    by (auto simp add: mask_bits)
  show ?thesis using e fit z n by simp
qed

text \<open>The mask for index 2 of 4-bit elements in 8-bit containers is \<open>0x0F\<close>.\<close>

theorem getAtomicWriteMask_value_witness:
  "(0::nat) < 4 \<and> (4::nat) dvd 8 \<and> (4::nat) < 31
   \<and> ofrValue env0 \<lparr>elemWidth = 8, cells = []\<rparr> (Attribute 2) = Some (IndexVal 2)
   \<and> (4::nat) = nat (spec_offset 2 4 8 True)
   \<and> emittedValue env0 \<lparr>elemWidth = 8, cells = []\<rparr>
        (andThen (getOffsetForBitwidth (Attribute 2) 4 8 True emptyRewriter)
           (\<lambda>(bitwidthOffset, b1). getAtomicWriteMask (Attribute 2) 4 8 bitwidthOffset b1)) =
        Some (IntVal 8 15)"
proof -
  have h: "(4::nat) = nat (spec_offset 2 4 8 True)" by (simp add: spec_offset_def)
  have v: "take_bit 8 (NOT (push_bit 4 ((2::int) ^ 4 - 1))) = 15" by simp
  show ?thesis
    using getAtomicWriteMask_value[of 4 8 env0 "\<lparr>elemWidth = 8, cells = []\<rparr>"
            "Attribute 2" 2 4 emptyRewriter] h v
    by (simp add: ofrValue_def)
qed

subsection \<open>The rewritten load\<close>



subsection \<open>Load and store together\<close>

text \<open>
  The store changes one slot of \<open>s\<close> bits of one container and nothing else: every bit
  outside the slot keeps its value.
\<close>

lemma store_keeps_other_bits:
  assumes "0 \<le> v" "v < 2 ^ s" "0 \<le> c" "c < 2 ^ t" "n < o' \<or> o' + s \<le> n"
  shows "bit ((c AND take_bit t (NOT (push_bit o' (mask s)))) OR take_bit t (push_bit o' v)) n
           = bit (c::int) n"
proof -
  have v: "take_bit s v = v" using assms(1,2) by (simp add: take_bit_int_eq_self)
  have c: "take_bit t c = c" using assms(3,4) by (simp add: take_bit_int_eq_self)
  have bv: "bit v k \<Longrightarrow> k < s" for k
    using v by (metis bit_take_bit_iff)
  have bc: "bit c k \<Longrightarrow> k < t" for k
    using c by (metis bit_take_bit_iff)
  show ?thesis
    using assms(5) bv[of "n - o'"] bc[of n] by (auto simp add: bit_simps)
qed



text \<open>The definitions that evaluate the patterns on concrete inputs.\<close>

lemmas pattern_defs =
  ConvertMemRefLoad_def ConvertMemrefStore_def getRank_def
  getIndicesForLoadOrStore_def getOffsetForBitwidth_def
  getAtomicWriteMask_def makeComposedFoldedAffineApply_def
  getValueOrCreateConstantIndexOp_def create_def replaceOp_def eraseOp_def
  emptyRewriter_def insertedOps_def getIntegerType_def getIntegerAttr_def
  affine_floorDiv_def affine_mul_def affine_mod_def affine_rsub_def
  cxx_div_def cxx_mod_def cxx_assert_def andThen_def shl_int32_def sub_int32_def
  signed_divide_int_def signed_modulo_int_def shli_def shrsi_def bitwise_def loadCell_def
  storeCell_def rmw_def Let_def split_def mask_eq_exp_minus_1
  replacedValue_def bufferAfter_def


text \<open>
  C1. Loading element 0 and storing the loaded value back at index 0 does not leave the
  rest of the container alone. With 4-bit elements in 8-bit containers and the container
  \<open>0xAB\<close>, the load of index 0 reads the low four bits, \<open>0xB\<close>; the store of \<open>0xB\<close> at
  index 0 writes the high four bits, and the container becomes \<open>0xBB\<close>. The bits that the
  load of index 1 reads have changed: it returned \<open>0xA\<close> before and returns \<open>0xB\<close>
  afterwards.
\<close>

theorem load_then_store_overwrites_neighbour:
  "replacedValue env0 \<lparr>elemWidth = 8, cells = [171]\<rparr>
      (ConvertMemRefLoad memref5xi8 i4 i4 (BlockArgument 0) (Attribute 0) emptyRewriter) =
     Some (IntVal 4 11)
   \<and> bufferAfter env0 emptyRewriter
      (ConvertMemrefStore memref5xi8 i4 (BlockArgument 0) (BlockArgument 1)
          (Attribute 0) emptyRewriter) \<lparr>elemWidth = 8, cells = [171]\<rparr>
       = Some \<lparr>elemWidth = 8, cells = [187]\<rparr>
   \<and> replacedValue env0 \<lparr>elemWidth = 8, cells = [171]\<rparr>
      (ConvertMemRefLoad memref5xi8 i4 i4 (BlockArgument 0) (Attribute 1) emptyRewriter) =
     Some (IntVal 4 10)
   \<and> replacedValue env0 \<lparr>elemWidth = 8, cells = [187]\<rparr>
      (ConvertMemRefLoad memref5xi8 i4 i4 (BlockArgument 0) (Attribute 1) emptyRewriter) =
     Some (IntVal 4 11)"
  by (simp add: pattern_defs memref5xi8_def i4_def env0_def)

subsection \<open>The type converter\<close>

lemma linearizedShape_rank0: "getRank ty = 0 \<Longrightarrow> getLinearizedShape ty srcBits dstBits = Inr []"
  by (simp add: getLinearizedShape_def)

lemma linearizedShape_value:
  assumes r: "getRank ty \<noteq> 0"
      and d: "getLinearizedShape ty width loadStoreWidth = Inr shp"
  shows "shp = [if kDynamic \<in> set (shape ty) then kDynamic
                else (prod_list (shape ty) + int (loadStoreWidth div width) - 1)
                       sdiv int (loadStoreWidth div width)]"
    and "kDynamic \<notin> set (shape ty) \<Longrightarrow> 0 < loadStoreWidth div width"
proof -
  obtain c where c: "linearizeDims 1 (shape ty) = Inr c"
    using r d by (cases "linearizeDims 1 (shape ty)") (simp_all add: getLinearizedShape_def andThen_def)
  note ceq = linearizeDims_eq[OF c]
  have d': "(case c of None \<Rightarrow> Inr [kDynamic]
             | Some linearizedShape \<Rightarrow>
                 andThen (cxx_div (int loadStoreWidth) (int width)) (\<lambda>scale.
                 andThen (add_int64 linearizedShape scale) (\<lambda>padded.
                 andThen (sub_int64 padded 1) (\<lambda>rounded.
                 andThen (cxx_div rounded scale) (\<lambda>linearizedShape'.
                   Inr [linearizedShape']))))) = Inr shp"
    using r d c by (cases c) (simp_all add: getLinearizedShape_def andThen_def)
  show "shp = [if kDynamic \<in> set (shape ty) then kDynamic
                else (prod_list (shape ty) + int (loadStoreWidth div width) - 1)
                       sdiv int (loadStoreWidth div width)]"
    using d' ceq
    by (auto simp add: andThen_def cxx_div_def add_int64_def sub_int64_def int64_def sdiv_nat
          split: if_splits)
  show "0 < loadStoreWidth div width" if "kDynamic \<notin> set (shape ty)"
    using d' ceq that
    by (auto simp add: andThen_def cxx_div_def add_int64_def sub_int64_def int64_def sdiv_nat
          split: if_splits)
qed

text \<open>
  The linearized shape is defined, in particular, for a nonzero width and a static shape of
  positive dimensions whose element count, with the rounding term, fits \<open>int64_t\<close>.
\<close>

lemma prod_list_pos: "\<forall>d\<in>set ds. (0::int) < d \<Longrightarrow> 0 < prod_list ds"
  by (induction ds) simp_all

lemma linearizeDims_defined:
  assumes "\<forall>d\<in>set ds. 0 < d" "0 < acc" "acc * prod_list ds < 2 ^ 63"
  shows "linearizeDims acc ds = Inr (Some (acc * prod_list ds))"
  using assms
proof (induction ds arbitrary: acc)
  case Nil
  then show ?case by simp
next
  case (Cons d ds)
  have d: "0 < d" using Cons.prems(1) by simp
  have p: "0 < prod_list ds" using Cons.prems(1) by (intro prod_list_pos) simp
  have nd: "d \<noteq> kDynamic" using d by (simp add: kDynamic_def)
  have pos: "0 < acc * d" using d Cons.prems(2) by simp
  have "acc * d * 1 \<le> acc * d * prod_list ds"
    using pos p by (intro mult_left_mono) simp_all
  then have lt: "acc * d < 2 ^ 63" using Cons.prems(3) by (simp add: algebra_simps)
  have "- (2 ^ 63) \<le> (0::int)" by simp
  then have ge: "- (2 ^ 63) \<le> acc * d" using pos by linarith
  have "linearizeDims (acc * d) ds = Inr (Some (acc * d * prod_list ds))"
    using Cons.prems by (intro Cons.IH) (simp_all add: pos algebra_simps)
  then show ?case using nd lt ge by (simp add: andThen_def mul_int64_def int64_def algebra_simps)
qed

lemma linearizedShape_defined:
  assumes "getRank ty \<noteq> 0" "0 < width" "width < loadStoreWidth"
      and "\<forall>d\<in>set (shape ty). 0 < d"
      and "prod_list (shape ty) + int (loadStoreWidth div width) < 2 ^ 63"
  shows "getLinearizedShape ty width loadStoreWidth =
           Inr [(prod_list (shape ty) + int (loadStoreWidth div width) - 1)
                  sdiv int (loadStoreWidth div width)]"
proof -
  have k: "0 < loadStoreWidth div width" using assms(2,3) by (rule scale_ge1)
  have p: "0 < prod_list (shape ty)" using assms(4) by (rule prod_list_pos)
  have lt: "prod_list (shape ty) < 2 ^ 63" using assms(5) k by linarith
  have l: "linearizeDims 1 (shape ty) = Inr (Some (prod_list (shape ty)))"
    using linearizeDims_defined[of "shape ty" 1] assms(4) lt by simp
  show ?thesis
    using assms(1,2,5) k p
    by (simp add: getLinearizedShape_def l andThen_def cxx_div_def sdiv_nat
          add_int64_def sub_int64_def int64_def)
qed

text \<open>
  An element count or a bit offset that leaves the range of \<open>int64_t\<close> has no defined
  result: four rows of \<open>2 ^ 62\<close> 4-bit elements, and an offset of \<open>2 ^ 61\<close> of them.
\<close>

lemma linearizedShape_overflow:
  "getLinearizedShape \<lparr>shape = [4, 2 ^ 62], elementType = IntegerType 4 Signless,
        layout = NoLayout, memorySpace = 0\<rparr> 4 8 = Inl signed_overflow"
  by (simp add: getLinearizedShape_def getRank_def kDynamic_def andThen_def mul_int64_def
        int64_def)

lemma convert_offset_overflow:
  "convertMemRefType 8 \<lparr>shape = [10], elementType = IntegerType 4 Signless,
        layout = StridedLayoutAttr (2 ^ 61) [1], memorySpace = 0\<rparr> = Inl signed_overflow"
  by (simp add: convertMemRefType_def getStridesAndOffset_def kDynamic_def andThen_def
        mul_int64_def int64_def)

text \<open>
  The conversion of a narrow integer element type, once the strides and the offset are
  known and the innermost stride, if there is one, is 1.
\<close>

lemma convert_narrow:
  assumes el: "elementType ty = IntegerType width sg"
      and narrow: "width < loadStoreWidth"
      and so: "getStridesAndOffset ty = Some (strides, offset)"
      and unit: "strides = [] \<or> last strides = 1"
  shows "convertMemRefType loadStoreWidth ty =
     (if offset = 0
      then andThen (getLinearizedShape ty width loadStoreWidth) (\<lambda>shp.
             Inr (Some (MemRefType_get shp (IntegerType loadStoreWidth sg) NoLayout
                          (memorySpace ty))))
      else if offset = kDynamic
      then andThen (getLinearizedShape ty width loadStoreWidth) (\<lambda>shp.
             Inr (Some (MemRefType_get shp (IntegerType loadStoreWidth sg)
                          (StridedLayoutAttr kDynamic [1]) (memorySpace ty))))
      else if \<not> (- (2 ^ 63) \<le> offset * int width \<and> offset * int width < 2 ^ 63)
      then Inl signed_overflow
      else if (offset * int width) mod int loadStoreWidth \<noteq> 0 then Inr None
      else andThen (getLinearizedShape ty width loadStoreWidth) (\<lambda>shp.
             Inr (Some (MemRefType_get shp (IntegerType loadStoreWidth sg)
                          (StridedLayoutAttr ((offset * int width) div int loadStoreWidth) [1])
                          (memorySpace ty)))))"
proof -
  have lp: "0 < int loadStoreWidth" using narrow by simp
  show ?thesis
    using narrow unit smod_zero_iff[OF lp, of "offset * int width"]
    by (auto simp add: convertMemRefType_def el so Let_def sdiv_exact andThen_def
          cxx_mod_def cxx_div_def mul_int64_def int64_def)
qed

text \<open>
  C5. Take a buffer type with a narrow integer element, an innermost stride of 1 (so the
  rank, which is the number of strides, is at least 1) and dimensions that are dynamic or
  non-negative, and let the converter accept it. If a dimension is dynamic, the converted
  shape is a single dynamic dimension. Otherwise it is the single dimension
  \<open>ceil(totalElementCount / scale)\<close> with \<open>scale = loadStoreWidth / width\<close>, whatever the
  original rank. A conversion whose \<open>int64_t\<close> arithmetic overflows, or that divides by a
  zero width, has no defined result and accepts nothing.
\<close>

theorem converted_shape_is_linearized:
  assumes el: "elementType ty = IntegerType width sg"
      and narrow: "width < loadStoreWidth"
      and so: "getStridesAndOffset ty = Some (strides, offset)"
      and unit: "strides \<noteq> []" "last strides = 1"
      and rank: "length (shape ty) = length strides"
      and dims: "\<forall>d\<in>set (shape ty). d = kDynamic \<or> 0 \<le> d"
      and acc: "convertMemRefType loadStoreWidth ty = Inr (Some ty')"
  shows "((\<exists>d\<in>set (shape ty). d = kDynamic) \<longrightarrow> shape ty' = [kDynamic])
       \<and> ((\<forall>d\<in>set (shape ty). d \<noteq> kDynamic) \<longrightarrow>
            shape ty' =
              [\<lceil>real_of_int (prod_list (shape ty)) / real (loadStoreWidth div width)\<rceil>])"
proof -
  have r: "getRank ty \<noteq> 0" using unit(1) rank by (simp add: getRank_def)
  obtain shp where shp: "getLinearizedShape ty width loadStoreWidth = Inr shp"
    and s': "shape ty' = shp"
    using acc convert_narrow[OF el narrow so] unit(2)
    by (cases "getLinearizedShape ty width loadStoreWidth")
       (auto simp add: MemRefType_get_def andThen_def split: if_splits)
  note lv = linearizedShape_value[OF r shp]
  have sh: "shape ty' = [if kDynamic \<in> set (shape ty) then kDynamic
                else (prod_list (shape ty) + int (loadStoreWidth div width) - 1)
                       sdiv int (loadStoreWidth div width)]"
    using lv(1) s' by simp
  have dyn: "(\<exists>d\<in>set (shape ty). d = kDynamic) \<longrightarrow> shape ty' = [kDynamic]"
    by (auto simp add: sh)
  have stat: "(\<forall>d\<in>set (shape ty). d \<noteq> kDynamic) \<longrightarrow>
            shape ty' =
              [\<lceil>real_of_int (prod_list (shape ty)) / real (loadStoreWidth div width)\<rceil>]"
  proof
    assume a: "\<forall>d\<in>set (shape ty). d \<noteq> kDynamic"
    then have "\<forall>d\<in>set (shape ty). 0 \<le> d" using dims by blast
    then have nn: "0 \<le> prod_list (shape ty)" by (rule prod_list_nonneg)
    have nd: "kDynamic \<notin> set (shape ty)" using a by blast
    have k: "0 < loadStoreWidth div width" using lv(2)[OF nd] .
    show "shape ty' =
            [\<lceil>real_of_int (prod_list (shape ty)) / real (loadStoreWidth div width)\<rceil>]"
      using nd ceil_div[OF nn k] by (simp add: sh)
  qed
  show ?thesis using dyn stat by blast
qed

text \<open>Ten unsigned 4-bit elements become five 8-bit containers.\<close>

theorem converted_shape_is_linearized_witness:
  "convertMemRefType 8 memref10xi4 =
     Inr (Some \<lparr>shape = [5], elementType = IntegerType 8 Unsigned, layout = NoLayout,
                 memorySpace = 0\<rparr>)
   \<and> shape \<lparr>shape = [5], elementType = IntegerType 8 Unsigned, layout = NoLayout,
             memorySpace = 0\<rparr> =
       [\<lceil>real_of_int (prod_list (shape memref10xi4)) / real (8 div 4)\<rceil>]"
proof -
  have acc: "convertMemRefType 8 memref10xi4 =
     Inr (Some \<lparr>shape = [5], elementType = IntegerType 8 Unsigned, layout = NoLayout,
                 memorySpace = 0\<rparr>)"
    by (simp add: convertMemRefType_def memref10xi4_def getStridesAndOffset_def
          getLinearizedShape_def getRank_def MemRefType_get_def kDynamic_def
          signed_divide_int_def andThen_def cxx_div_def
          mul_int64_def add_int64_def sub_int64_def int64_def)
  have so: "getStridesAndOffset memref10xi4 = Some ([1], 0)"
    by (simp add: getStridesAndOffset_def memref10xi4_def)
  show ?thesis
    using converted_shape_is_linearized[of memref10xi4 4 Unsigned 8 "[1]" 0,
            OF _ _ so _ _ _ _ acc] acc
    by (simp add: memref10xi4_def kDynamic_def)
qed

text \<open>
  C6. Take a buffer type with a narrow integer element and an innermost stride of 1, whose
  linearized shape is defined (the element count and its rounding sum stay in the range of
  \<open>int64_t\<close>, and the width is not zero when the shape is static), and for a static
  offset let \<open>offset * width\<close> stay in the range of \<open>int64_t\<close>. With a dynamic offset
  the converter returns a type with a dynamic offset and stride 1 on its single dimension;
  with a static nonzero offset it returns a type if and only if
  \<open>(offset * width) mod loadStoreWidth = 0\<close>, the type it returns has the offset
  \<open>(offset * width) / loadStoreWidth\<close> and stride 1 on its single dimension, and otherwise
  it returns no conversion; with offset 0 it returns a type without a layout annotation.
\<close>

theorem converted_layout_offset:
  assumes el: "elementType ty = IntegerType width sg"
      and narrow: "width < loadStoreWidth"
      and so: "getStridesAndOffset ty = Some (strides, offset)"
      and unit: "strides \<noteq> []" "last strides = 1"
      and rank: "length (shape ty) = length strides"
      and shp: "getLinearizedShape ty width loadStoreWidth = Inr shp"
      and rng: "offset \<noteq> kDynamic \<longrightarrow>
                  - (2 ^ 63) \<le> offset * int width \<and> offset * int width < 2 ^ 63"
  shows "(offset = kDynamic \<longrightarrow>
            (\<exists>ty'. convertMemRefType loadStoreWidth ty = Inr (Some ty') \<and>
                   layout ty' = StridedLayoutAttr kDynamic [1] \<and> length (shape ty') = 1))
       \<and> (offset \<noteq> kDynamic \<and> offset \<noteq> 0 \<longrightarrow>
            ((\<exists>ty'. convertMemRefType loadStoreWidth ty = Inr (Some ty')) =
               ((offset * int width) mod int loadStoreWidth = 0)) \<and>
            ((offset * int width) mod int loadStoreWidth \<noteq> 0 \<longrightarrow>
               convertMemRefType loadStoreWidth ty = Inr None) \<and>
            (\<forall>ty'. convertMemRefType loadStoreWidth ty = Inr (Some ty') \<longrightarrow>
                   layout ty' =
                     StridedLayoutAttr ((offset * int width) div int loadStoreWidth) [1] \<and>
                   length (shape ty') = 1))
       \<and> (offset = 0 \<longrightarrow>
            (\<exists>ty'. convertMemRefType loadStoreWidth ty = Inr (Some ty') \<and>
                   layout ty' = NoLayout))"
proof -
  have r: "getRank ty \<noteq> 0" using unit(1) rank by (simp add: getRank_def)
  have len: "length shp = 1" using linearizedShape_value(1)[OF r shp] by simp
  have kd: "kDynamic \<noteq> 0" by (simp add: kDynamic_def)
  show ?thesis
    using convert_narrow[OF el narrow so] unit(2) kd rng len
    by (auto simp add: MemRefType_get_def shp andThen_def)
qed

text \<open>An offset of six 4-bit elements is an offset of three 8-bit containers.\<close>

theorem converted_layout_offset_witness:
  "convertMemRefType 8 \<lparr>shape = [10], elementType = IntegerType 4 Signless,
        layout = StridedLayoutAttr 6 [1], memorySpace = 0\<rparr> =
       Inr (Some \<lparr>shape = [5], elementType = IntegerType 8 Signless,
                   layout = StridedLayoutAttr 3 [1], memorySpace = 0\<rparr>)
   \<and> (6 * int 4) mod int 8 = 0 \<and> (6 * int 4) div int 8 = 3"
proof -
  let ?ty = "\<lparr>shape = [10], elementType = IntegerType 4 Signless,
        layout = StridedLayoutAttr 6 [1], memorySpace = 0\<rparr>"
  have so: "getStridesAndOffset ?ty = Some ([1], 6)" by (simp add: getStridesAndOffset_def)
  have shp: "getLinearizedShape ?ty 4 8 = Inr [5]"
    by (simp add: getLinearizedShape_def getRank_def kDynamic_def signed_divide_int_def
          andThen_def cxx_div_def mul_int64_def add_int64_def sub_int64_def int64_def)
  have acc: "convertMemRefType 8 ?ty = Inr (Some \<lparr>shape = [5],
              elementType = IntegerType 8 Signless,
              layout = StridedLayoutAttr 3 [1], memorySpace = 0\<rparr>)"
    by (simp add: convertMemRefType_def getStridesAndOffset_def shp
          MemRefType_get_def kDynamic_def
          signed_divide_int_def signed_modulo_int_def andThen_def cxx_div_def cxx_mod_def
          mul_int64_def int64_def)
  show ?thesis
    using converted_layout_offset[of ?ty 4 Signless 8 "[1]" 6 "[5]", OF _ _ so _ _ _ shp] acc
    by (simp add: kDynamic_def)
qed

text \<open>
  C7. A buffer type whose element type is not an integer, or is an integer at least as wide
  as the addressable width, is returned unchanged; so converting the result again gives the
  same result.
\<close>

theorem convert_wide_enough_unchanged:
  assumes "\<forall>w sg. elementType ty = IntegerType w sg \<longrightarrow> loadStoreWidth \<le> w"
  shows "convertMemRefType loadStoreWidth ty = Inr (Some ty)
       \<and> convertAgain loadStoreWidth (convertMemRefType loadStoreWidth ty) =
           convertMemRefType loadStoreWidth ty"
proof -
  have "convertMemRefType loadStoreWidth ty = Inr (Some ty)"
    using assms by (cases "elementType ty") (simp_all add: convertMemRefType_def)
  then show ?thesis by (simp add: convertAgain_def andThen_def)
qed

text \<open>A buffer of 8-bit elements with an addressable width of 8.\<close>

theorem convert_wide_enough_unchanged_witness:
  "convertMemRefType 8 memref5xi8 = Inr (Some memref5xi8)
   \<and> convertAgain 8 (convertMemRefType 8 memref5xi8) = convertMemRefType 8 memref5xi8"
  by (rule convert_wide_enough_unchanged) (simp add: memref5xi8_def)

text \<open>
  C9, as the code has it. For a rank-0 buffer type with a narrow integer element, every
  type that the converter returns has an empty shape, the addressable width as element
  width, and the signedness and memory space of the original; and the converter does
  return such a type, without a layout annotation, when the offset of the original is 0.
\<close>

theorem convert_rank0:
  assumes rank: "getRank ty = 0"
      and el: "elementType ty = IntegerType width sg"
      and narrow: "width < loadStoreWidth"
  shows "(\<forall>ty'. convertMemRefType loadStoreWidth ty = Inr (Some ty') \<longrightarrow>
            shape ty' = [] \<and> elementType ty' = IntegerType loadStoreWidth sg \<and>
            memorySpace ty' = memorySpace ty)
       \<and> (getStridesAndOffset ty = Some ([], 0) \<longrightarrow>
            convertMemRefType loadStoreWidth ty =
              Inr (Some \<lparr>shape = [], elementType = IntegerType loadStoreWidth sg,
                          layout = NoLayout, memorySpace = memorySpace ty\<rparr>))"
  using rank narrow
  by (auto simp add: convertMemRefType_def el linearizedShape_rank0 MemRefType_get_def Let_def
        andThen_def cxx_mod_def cxx_div_def mul_int64_def int64_def
        split: option.splits if_splits)

text \<open>A signed 4-bit scalar buffer in memory space 3.\<close>

theorem convert_rank0_witness:
  "convertMemRefType 8 \<lparr>shape = [], elementType = IntegerType 4 Signed, layout = NoLayout,
        memorySpace = 3\<rparr> =
     Inr (Some \<lparr>shape = [], elementType = IntegerType 8 Signed, layout = NoLayout,
                 memorySpace = 3\<rparr>)"
  using convert_rank0[of "\<lparr>shape = [], elementType = IntegerType 4 Signed, layout = NoLayout,
        memorySpace = 3\<rparr>" 4 Signed 8]
  by (simp add: getRank_def getStridesAndOffset_def)

text \<open>
  C9 as stated fails: the rank-0 type \<open>memref<i4, strided<[], offset: 1>>\<close> has a narrow
  integer element, and the converter returns no type for it, because one 4-bit element is
  not a whole number of 8-bit containers.
\<close>

theorem convert_rank0_counterexample:
  "getRank \<lparr>shape = [], elementType = IntegerType 4 Signless,
             layout = StridedLayoutAttr 1 [], memorySpace = 0\<rparr> = 0
   \<and> convertMemRefType 8 \<lparr>shape = [], elementType = IntegerType 4 Signless,
             layout = StridedLayoutAttr 1 [], memorySpace = 0\<rparr> = Inr None"
  by (simp add: getRank_def convertMemRefType_def getStridesAndOffset_def kDynamic_def
        signed_modulo_int_def andThen_def cxx_mod_def mul_int64_def int64_def)

subsection \<open>The subview pattern\<close>

text \<open>
  C8, as the code has it. A subview whose static stride in dimension 0 is not 1, whose
  element width is not zero and whose result type the type converter can process, is
  rejected: the pattern returns a match failure and hands the rewriter back as it got it,
  with no operation inserted and the original operation untouched. The diagnostic is that
  of the first check that fails, in the order of the source: the conversion of the result
  type, the divisibility of the widths, the rank, and only then the stride.
\<close>

theorem subview_nonunit_stride_rejected:
  assumes stride: "getStaticStride opn 0 \<noteq> 1"
      and pos: "0 < getIntOrFloatBitWidth (elementType (resultType opn))"
      and conv: "convertType (resultType opn) = Inr converted"
  shows "ConvertMemRefSubview convertType opn source rw =
           Inr (failure
              (case converted of
                 None \<Rightarrow> ''failed to convert memref type: ''
               | Some newTy \<Rightarrow>
                   if getIntOrFloatBitWidth (elementType newTy)
                        mod getIntOrFloatBitWidth (elementType (resultType opn)) \<noteq> 0
                   then ''only dstBits % srcBits == 0 supported''
                   else if getRank (resultType opn) \<noteq> 1
                   then ''subview with rank > 1 is not supported''
                   else ''subview with stride != 1 is not supported''),
            rw)"
  using stride pos
  by (auto simp add: ConvertMemRefSubview_def notifyMatchFailure_def Let_def conv andThen_def
        cxx_mod_nat split: option.splits)

text \<open>A rank-1 subview of 8-bit elements with stride 2 gets the stride diagnostic.\<close>

theorem subview_nonunit_stride_rejected_witness:
  "getStaticStride subview_stride2 0 \<noteq> 1
   \<and> 0 < getIntOrFloatBitWidth (elementType (resultType subview_stride2))
   \<and> convertMemRefType 8 (resultType subview_stride2) = Inr (Some (resultType subview_stride2))
   \<and> ConvertMemRefSubview (convertMemRefType 8) subview_stride2 (BlockArgument 0) emptyRewriter =
       Inr (failure ''subview with stride != 1 is not supported'', emptyRewriter)"
  using subview_nonunit_stride_rejected
          [of subview_stride2 "convertMemRefType 8" "Some (resultType subview_stride2)"
              "BlockArgument 0" emptyRewriter]
  by (simp add: subview_stride2_def getStaticStride_def getRank_def convertMemRefType_def)

text \<open>
  C8 as stated fails: a rank-2 subview of 4-bit elements with strides \<open>[2, 1]\<close> has a static
  stride that is not 1, and is rejected with the diagnostic of the rank check, which comes
  first.
\<close>

theorem subview_rank2_diagnostic_counterexample:
  "getStaticStride subview_2d 0 \<noteq> 1
   \<and> ConvertMemRefSubview (convertMemRefType 8) subview_2d (BlockArgument 0) emptyRewriter =
       Inr (failure ''subview with rank > 1 is not supported'', emptyRewriter)
   \<and> ''subview with rank > 1 is not supported'' \<noteq> ''subview with stride != 1 is not supported''"
  by (simp add: subview_2d_def getStaticStride_def ConvertMemRefSubview_def convertMemRefType_def
        getStridesAndOffset_def getLinearizedShape_def getRank_def MemRefType_get_def
        notifyMatchFailure_def kDynamic_def signed_divide_int_def signed_modulo_int_def Let_def
        andThen_def cxx_div_def cxx_mod_def mul_int64_def add_int64_def sub_int64_def
        int64_def)

end
